theory Spec2Isabelle
  imports Main "HOL-Library.Word"
begin

unbundle bit_operations_syntax

section \<open>Python values and exceptions\<close>

text \<open>
  The handlers of \<^verbatim>\<open>app/api/routes.py\<close> are glue around three collaborators that are
  not part of the modelled sources: the agent graph factory \<^verbatim>\<open>create_agent_graph\<close>, the
  graph's \<^verbatim>\<open>ainvoke\<close> method and the generator \<^verbatim>\<open>stream_agent_response\<close>.
  They are parameters of the model. Every raise of the source is a value: a handler returns
  either an exception or its result.
\<close>

text \<open>
  Exceptions as the two \<^verbatim>\<open>except Exception\<close> clauses see them: FastAPI's
  \<^verbatim>\<open>HTTPException(status_code, detail)\<close>, any other subclass of \<^verbatim>\<open>Exception\<close>
  (carrying its \<^verbatim>\<open>str()\<close>), and exceptions that derive from \<^verbatim>\<open>BaseException\<close>
  only (\<^verbatim>\<open>CancelledError\<close>, \<^verbatim>\<open>KeyboardInterrupt\<close>), which \<^verbatim>\<open>except Exception\<close>
  does not catch.
\<close>

datatype py_exception =
    HTTPException nat string
  | Exception string
  | BaseException string

fun is_Exception :: "py_exception \<Rightarrow> bool" where
  "is_Exception (HTTPException sc d) = True"
| "is_Exception (Exception m) = True"
| "is_Exception (BaseException m) = False"

definition digit_char :: "nat \<Rightarrow> char" where
  "digit_char d = char_of (48 + d)"

text \<open>Python's \<^verbatim>\<open>str\<close> of a non-negative integer: its decimal digits.\<close>

function str_nat :: "nat \<Rightarrow> string" where
  "str_nat n = (if n < 10 then [digit_char n] else str_nat (n div 10) @ [digit_char (n mod 10)])"
  by pat_completeness auto
termination
  by (relation "measure (\<lambda>n. n)") auto

declare str_nat.simps [simp del]

text \<open>
  \<^verbatim>\<open>str(e)\<close>. Starlette's \<^verbatim>\<open>HTTPException.__str__\<close> returns
  \<^verbatim>\<open>f"{self.status_code}: {self.detail}"\<close>; the other exceptions carry their text.
\<close>

fun str_exception :: "py_exception \<Rightarrow> string" where
  "str_exception (HTTPException sc d) = str_nat sc @ '': '' @ d"
| "str_exception (Exception m) = m"
| "str_exception (BaseException m) = m"

text \<open>JSON-like Python values, for the arguments of a tool call.\<close>

datatype pyval =
    PyNone
  | PyStr string
  | PyInt int
  | PyBool bool
  | PyList "pyval list"
  | PyDict "(string \<times> pyval) list"

text \<open>\<^verbatim>\<open>d.get(k)\<close> on a dict: the value, or \<^verbatim>\<open>None\<close> when the key is missing.\<close>

definition dict_get :: "(string \<times> pyval) list \<Rightarrow> string \<Rightarrow> pyval" where
  "dict_get d k = (case map_of d k of None \<Rightarrow> PyNone | Some v \<Rightarrow> v)"

section \<open>Data model\<close>

text \<open>
  \<^verbatim>\<open>ChatRequest\<close> and \<^verbatim>\<open>ChatResponse\<close> (declared in \<^verbatim>\<open>app/api/schemas.py\<close>) with the
  fields the handler reads and writes.
\<close>

record chat_request =
  message :: string
  session_id :: "string option"

record tool_record =
  tr_name :: pyval
  tr_args :: pyval

record chat_response =
  response :: string
  resp_session_id :: string
  tool_calls :: "tool_record list option"

text \<open>\<^verbatim>\<open>HumanMessage(content=...)\<close>.\<close>

datatype human_message = HumanMessage string

text \<open>The initial state \<^verbatim>\<open>{"messages": [...], "session_id": ...}\<close>.\<close>

record agent_state =
  st_messages :: "human_message list"
  st_session_id :: string

text \<open>The thread configuration \<^verbatim>\<open>{"configurable": {"thread_id": ...}}\<close>.\<close>

record thread_config =
  thread_id :: string

text \<open>
  A message returned by the graph: its \<^verbatim>\<open>content\<close>, and its \<^verbatim>\<open>tool_calls\<close>
  attribute, \<open>None\<close> when the message has no such attribute (or it is \<^verbatim>\<open>None\<close>),
  otherwise the list of tool call dicts.
\<close>

record agent_message =
  content :: string
  msg_tool_calls :: "(string \<times> pyval) list list option"

text \<open>The dict returned by \<^verbatim>\<open>ainvoke\<close>; \<open>None\<close> when it has no key \<^verbatim>\<open>"messages"\<close>.\<close>

record agent_result =
  res_messages :: "agent_message list option"

text \<open>
  The asynchronous generator returned by \<^verbatim>\<open>stream_agent_response\<close>: it yields an
  event and goes on, or raises, or is exhausted. The sequence is finite.
\<close>

datatype event_gen =
    Gen_done
  | Gen_raise py_exception
  | Gen_yield string event_gen

datatype checkpointer = AsyncPostgresSaver string

text \<open>
  The collaborators, for one request: the graph factory, the two ways to run a graph
  \<open>'g\<close>, and the 16 bytes \<^verbatim>\<open>os.urandom\<close> hands to \<^verbatim>\<open>uuid.uuid4\<close>.
\<close>

record 'g externals =
  create_agent_graph :: "checkpointer option \<Rightarrow> py_exception + 'g"
  ainvoke :: "'g \<Rightarrow> agent_state \<Rightarrow> thread_config \<Rightarrow> py_exception + agent_result"
  stream_agent_response :: "'g \<Rightarrow> agent_state \<Rightarrow> thread_config \<Rightarrow> event_gen"
  urandom :: "128 word"

text \<open>The calls a handler makes to its collaborators, in order.\<close>

datatype call =
    Create_agent_graph "checkpointer option"
  | Ainvoke agent_state thread_config
  | Stream_agent_response agent_state thread_config

text \<open>
  The process state: the module global \<^verbatim>\<open>_checkpointer\<close> of \<^verbatim>\<open>routes.py\<close> and
  \<^verbatim>\<open>app.state.checkpointer\<close>, which \<^verbatim>\<open>lifespan\<close> sets.
\<close>

record process_state =
  checkpointer_global :: "checkpointer option"
  app_state_checkpointer :: "checkpointer option"

definition initial_process_state :: process_state where
  "initial_process_state = \<lparr>checkpointer_global = None, app_state_checkpointer = None\<rparr>"

section \<open>Session identifiers\<close>

text \<open>
  \<^verbatim>\<open>uuid.uuid4()\<close> of the standard library: \<^verbatim>\<open>UUID(bytes=os.urandom(16), version=4)\<close>
  sets the RFC 4122 variant and the version number in the 128-bit integer.
\<close>

definition uuid4 :: "128 word \<Rightarrow> 128 word" where
  "uuid4 r =
     (((r AND NOT (push_bit 48 0xc000)) OR push_bit 48 0x8000)
        AND NOT (push_bit 64 0xf000)) OR push_bit 76 4"

definition hex_digit :: "nat \<Rightarrow> char" where
  "hex_digit d = (if d < 10 then char_of (48 + d) else char_of (87 + d))"

text \<open>\<^verbatim>\<open>'%032x' % u\<close>: the 32 hexadecimal digits, most significant first.\<close>

definition hex32 :: "128 word \<Rightarrow> string" where
  "hex32 u = map (\<lambda>i. hex_digit (unat (drop_bit (4 * (31 - i)) u AND 15))) [0..<32]"

text \<open>\<^verbatim>\<open>str(u)\<close> of a UUID: the digits in groups of 8, 4, 4, 4 and 12.\<close>

definition str_uuid :: "128 word \<Rightarrow> string" where
  "str_uuid u =
     (let h = hex32 u in
      take 8 h @ ''-'' @ take 4 (drop 8 h) @ ''-'' @ take 4 (drop 12 h) @ ''-''
        @ take 4 (drop 16 h) @ ''-'' @ drop 20 h)"

text \<open>
  \<^verbatim>\<open>session_id or str(uuid.uuid4())\<close>: the left operand when it is truthy (neither
  \<^verbatim>\<open>None\<close> nor the empty string), otherwise the right one.
\<close>

fun or_str :: "string option \<Rightarrow> string \<Rightarrow> string" where
  "or_str None d = d"
| "or_str (Some v) d = (if v = [] then d else v)"

section \<open>The checkpointer\<close>

text \<open>\<^verbatim>\<open>get_checkpointer\<close> of \<^verbatim>\<open>app/agent/checkpointer.py\<close>.\<close>

definition get_checkpointer :: "checkpointer option" where
  "get_checkpointer = None"

text \<open>
  \<^verbatim>\<open>get_agent_graph\<close>: fills the global when it is \<^verbatim>\<open>None\<close>, then builds the graph
  with the global. It returns the graph (or the factory's exception), the process state
  and the call made.
\<close>

definition get_agent_graph ::
  "'g externals \<Rightarrow> process_state \<Rightarrow> (py_exception + 'g) \<times> process_state \<times> call list" where
  "get_agent_graph ext s =
     (let s' = (if checkpointer_global s = None
                then s\<lparr>checkpointer_global := get_checkpointer\<rparr> else s)
      in (create_agent_graph ext (checkpointer_global s'), s',
          [Create_agent_graph (checkpointer_global s')]))"

section \<open>The batch handler\<close>

text \<open>The local variables \<^verbatim>\<open>initial_state\<close> and \<^verbatim>\<open>config\<close> of both handlers.\<close>

definition initial_state :: "string \<Rightarrow> string \<Rightarrow> agent_state" where
  "initial_state msg sid = \<lparr>st_messages = [HumanMessage msg], st_session_id = sid\<rparr>"

definition config :: "string \<Rightarrow> thread_config" where
  "config sid = \<lparr>thread_id = sid\<rparr>"

text \<open>
  The inner loop \<^verbatim>\<open>for tool_call in msg.tool_calls: tool_calls.append({...})\<close>, with the
  list built so far as accumulator.
\<close>

fun append_tool_calls :: "(string \<times> pyval) list list \<Rightarrow> tool_record list \<Rightarrow> tool_record list" where
  "append_tool_calls [] acc = acc"
| "append_tool_calls (tc # tcs) acc =
     append_tool_calls tcs
       (acc @ [\<lparr>tr_name = dict_get tc ''name'', tr_args = dict_get tc ''args''\<rparr>])"

text \<open>
  The outer loop \<^verbatim>\<open>for msg in messages\<close>: a message is scanned when it has the
  attribute \<^verbatim>\<open>tool_calls\<close> and the attribute is truthy (a non-empty list).
\<close>

fun collect_tool_calls :: "agent_message list \<Rightarrow> tool_record list \<Rightarrow> tool_record list" where
  "collect_tool_calls [] acc = acc"
| "collect_tool_calls (msg # msgs) acc =
     (case msg_tool_calls msg of
        None \<Rightarrow> collect_tool_calls msgs acc
      | Some tcs \<Rightarrow>
          if tcs = [] then collect_tool_calls msgs acc
          else collect_tool_calls msgs (append_tool_calls tcs acc))"

text \<open>
  The body of the \<^verbatim>\<open>try\<close> block of \<^verbatim>\<open>chat\<close>. The result is the exception raised in
  the block or the \<^verbatim>\<open>ChatResponse\<close>, with the process state and the calls made.
\<close>

definition chat_try ::
  "'g externals \<Rightarrow> chat_request \<Rightarrow> process_state
     \<Rightarrow> (py_exception + chat_response) \<times> process_state \<times> call list" where
  "chat_try ext req s =
     (case get_agent_graph ext s of
        (Inl e, s', cs) \<Rightarrow> (Inl e, s', cs)
      | (Inr agent_graph, s', cs) \<Rightarrow>
          let sid = or_str (session_id req) (str_uuid (uuid4 (urandom ext)));
              cs' = cs @ [Ainvoke (initial_state (message req) sid) (config sid)]
          in (case ainvoke ext agent_graph (initial_state (message req) sid) (config sid) of
                Inl e \<Rightarrow> (Inl e, s', cs')
              | Inr result \<Rightarrow>
                  let messages = (case res_messages result of None \<Rightarrow> [] | Some ms \<Rightarrow> ms)
                  in if messages = []
                     then (Inl (HTTPException 500 ''No response from agent''), s', cs')
                     else
                       let final_message = last messages;
                           response_text = content final_message;
                           tcs = collect_tool_calls messages []
                       in (Inr \<lparr>response = response_text, resp_session_id = sid,
                                 tool_calls = (if tcs = [] then None else Some tcs)\<rparr>,
                           s', cs')))"

text \<open>
  \<^verbatim>\<open>chat\<close>: the \<^verbatim>\<open>try\<close> block under \<^verbatim>\<open>except Exception as e\<close>, which raises
  \<^verbatim>\<open>HTTPException(status_code=500, detail=str(e))\<close>. FastAPI answers an
  \<^verbatim>\<open>HTTPException\<close> with its status code and \<^verbatim>\<open>{"detail": ...}\<close>; a value \<open>Inr\<close>
  is the body of the 200 answer.
\<close>

definition chat ::
  "'g externals \<Rightarrow> chat_request \<Rightarrow> process_state
     \<Rightarrow> (py_exception + chat_response) \<times> process_state \<times> call list" where
  "chat ext req s =
     (case chat_try ext req s of
        (Inl e, s', cs) \<Rightarrow>
          (if is_Exception e then Inl (HTTPException 500 (str_exception e)) else Inl e, s', cs)
      | (Inr r, s', cs) \<Rightarrow> (Inr r, s', cs))"

section \<open>The streaming handler\<close>

text \<open>
  The loop \<^verbatim>\<open>async for event in stream_agent_response(...): yield event\<close>: the events
  yielded, and the exception that ended the loop, if any.
\<close>

fun forward_events :: "event_gen \<Rightarrow> string list \<times> py_exception option" where
  "forward_events Gen_done = ([], None)"
| "forward_events (Gen_raise e) = ([], Some e)"
| "forward_events (Gen_yield event g) =
     (case forward_events g of (evs, r) \<Rightarrow> (event # evs, r))"

text \<open>The string \<^verbatim>\<open>f"event: error\ndata: {str(e)}\n\n"\<close>.\<close>

definition error_frame :: "py_exception \<Rightarrow> string" where
  "error_frame e =
     ''event: error'' @ [CHR 0x0A] @ ''data: '' @ str_exception e @ [CHR 0x0A, CHR 0x0A]"

text \<open>
  The \<^verbatim>\<open>try\<close> block of \<^verbatim>\<open>event_generator\<close>: the strings it yields and the exception
  raised in the block, if any.
\<close>

definition event_generator_try ::
  "'g externals \<Rightarrow> string \<Rightarrow> string option \<Rightarrow> process_state
     \<Rightarrow> (string list \<times> py_exception option) \<times> process_state \<times> call list" where
  "event_generator_try ext msg session s =
     (case get_agent_graph ext s of
        (Inl e, s', cs) \<Rightarrow> (([], Some e), s', cs)
      | (Inr agent_graph, s', cs) \<Rightarrow>
          let sid = or_str session (str_uuid (uuid4 (urandom ext)))
          in (forward_events
                (stream_agent_response ext agent_graph (initial_state msg sid) (config sid)),
              s', cs @ [Stream_agent_response (initial_state msg sid) (config sid)]))"

text \<open>
  \<^verbatim>\<open>event_generator\<close>: an exception caught by \<^verbatim>\<open>except Exception as e\<close> becomes one
  more yielded string and the generator ends; any other exception leaves the generator.
  The result is the list of strings yielded and the exception that left the generator.
\<close>

definition event_generator ::
  "'g externals \<Rightarrow> string \<Rightarrow> string option \<Rightarrow> process_state
     \<Rightarrow> (string list \<times> py_exception option) \<times> process_state \<times> call list" where
  "event_generator ext msg session s =
     (case event_generator_try ext msg session s of
        ((evs, Some e), s', cs) \<Rightarrow>
          (if is_Exception e then (evs @ [error_frame e], None) else (evs, Some e), s', cs)
      | ((evs, None), s', cs) \<Rightarrow> ((evs, None), s', cs))"

text \<open>\<^verbatim>\<open>chat_stream\<close> hands the generator to \<^verbatim>\<open>EventSourceResponse\<close>.\<close>

definition chat_stream ::
  "'g externals \<Rightarrow> string \<Rightarrow> string option \<Rightarrow> process_state
     \<Rightarrow> (string list \<times> py_exception option) \<times> process_state \<times> call list" where
  "chat_stream ext msg session s = event_generator ext msg session s"

section \<open>Start-up and the sequence of requests\<close>

text \<open>Python's \<^verbatim>\<open>s.replace(old, new)\<close>: every occurrence, left to right.\<close>

function str_replace :: "string \<Rightarrow> string \<Rightarrow> string \<Rightarrow> string" where
  "str_replace s old new =
     (if old = [] then new @ concat (map (\<lambda>c. c # new) s)
      else if s = [] then []
      else if take (length old) s = old then new @ str_replace (drop (length old) s) old new
      else hd s # str_replace (tl s) old new)"
  by pat_completeness auto
termination
  by (relation "measure (\<lambda>(s, old, new). length s)") auto

declare str_replace.simps [simp del]

text \<open>
  \<^verbatim>\<open>lifespan\<close> of \<^verbatim>\<open>app/main.py\<close>, when start-up succeeds: the saver opened on the
  converted database URL is stored in \<^verbatim>\<open>app.state.checkpointer\<close>.
\<close>

definition lifespan :: "string \<Rightarrow> process_state \<Rightarrow> process_state" where
  "lifespan database_url s =
     (let checkpointer_url = str_replace database_url ''+asyncpg'' []
      in s\<lparr>app_state_checkpointer := Some (AsyncPostgresSaver checkpointer_url)\<rparr>)"

datatype request = Chat chat_request | Chat_stream string "string option"

text \<open>One request served on the process state: the new state and the calls made.\<close>

fun serve :: "'g externals \<Rightarrow> request \<Rightarrow> process_state \<Rightarrow> process_state \<times> call list" where
  "serve ext (Chat req) s = snd (chat ext req s)"
| "serve ext (Chat_stream msg session) s = snd (chat_stream ext msg session s)"

text \<open>Requests served one after the other, each with its own collaborators.\<close>

fun serve_all :: "('g externals \<times> request) list \<Rightarrow> process_state \<Rightarrow> process_state \<times> call list" where
  "serve_all [] s = (s, [])"
| "serve_all ((ext, r) # rs) s =
     (case serve ext r s of (s', cs) \<Rightarrow>
        (case serve_all rs s' of (s'', cs') \<Rightarrow> (s'', cs @ cs')))"

text \<open>The checkpointers the graph factory was called with.\<close>

fun created_with :: "call list \<Rightarrow> checkpointer option list" where
  "created_with [] = []"
| "created_with (Create_agent_graph k # cs) = k # created_with cs"
| "created_with (c # cs) = created_with cs"

text \<open>The states and configurations the graph was run with.\<close>

fun run_with :: "call list \<Rightarrow> (agent_state \<times> thread_config) list" where
  "run_with [] = []"
| "run_with (Ainvoke st cfg # cs) = (st, cfg) # run_with cs"
| "run_with (Stream_agent_response st cfg # cs) = (st, cfg) # run_with cs"
| "run_with (c # cs) = run_with cs"

section \<open>Reference definitions and sample collaborators\<close>

text \<open>
  The tool-call list as the specification words it: every tool-invocation record of every
  returned message, flattened in message order. It is compared below with the two loops of
  \<^verbatim>\<open>chat\<close>.
\<close>

definition tool_records_spec :: "agent_message list \<Rightarrow> tool_record list" where
  "tool_records_spec msgs =
     concat (map (\<lambda>msg. map (\<lambda>tc. \<lparr>tr_name = dict_get tc ''name'', tr_args = dict_get tc ''args''\<rparr>)
                         (case msg_tool_calls msg of None \<Rightarrow> [] | Some tcs \<Rightarrow> tcs)) msgs)"

text \<open>
  The generator that yields the events of a list and then ends the way its last argument
  says. Every value of \<^typ>\<open>event_gen\<close> is of this form.
\<close>

definition gen_of :: "string list \<Rightarrow> event_gen \<Rightarrow> event_gen" where
  "gen_of evs ending = foldr Gen_yield evs ending"

text \<open>
  Collaborators for the concrete runs: a factory that succeeds, a graph that answers with
  the given result and streams the given generator, and the random bytes all zero.
\<close>

definition stub_externals :: "agent_message list option \<Rightarrow> event_gen \<Rightarrow> unit externals" where
  "stub_externals msgs gen =
     \<lparr>create_agent_graph = (\<lambda>k. Inr ()),
      ainvoke = (\<lambda>g st cfg. Inr \<lparr>res_messages = msgs\<rparr>),
      stream_agent_response = (\<lambda>g st cfg. gen),
      urandom = 0\<rparr>"

text \<open>Collaborators whose factory raises.\<close>

definition failing_externals :: "py_exception \<Rightarrow> unit externals" where
  "failing_externals e =
     \<lparr>create_agent_graph = (\<lambda>k. Inl e),
      ainvoke = (\<lambda>g st cfg. Inl e),
      stream_agent_response = (\<lambda>g st cfg. Gen_raise e),
      urandom = 0\<rparr>"

text \<open>Messages, requests and results for the concrete runs.\<close>

definition sample_messages :: "agent_message list" where
  "sample_messages =
     [\<lparr>content = ''calling'',
       msg_tool_calls = Some [[(''name'', PyStr ''C''), (''args'', PyDict [])]]\<rparr>,
      \<lparr>content = ''tool result'', msg_tool_calls = None\<rparr>,
      \<lparr>content = ''done'',
       msg_tool_calls = Some [[(''name'', PyStr ''A''), (''args'', PyDict [(''x'', PyInt 1)])],
                              [(''name'', PyStr ''B'')]]\<rparr>]"

definition plain_messages :: "agent_message list" where
  "plain_messages =
     [\<lparr>content = ''thinking'', msg_tool_calls = Some []\<rparr>,
      \<lparr>content = ''ok'', msg_tool_calls = None\<rparr>]"

definition sample_request :: chat_request where
  "sample_request = \<lparr>message = ''hi'', session_id = Some ''s1''\<rparr>"

definition anonymous_request :: chat_request where
  "anonymous_request = \<lparr>message = ''hi'', session_id = None\<rparr>"

definition empty_request :: chat_request where
  "empty_request = \<lparr>message = [], session_id = Some ''s1''\<rparr>"

section \<open>Auxiliary facts\<close>

text \<open>The definitions a concrete run unfolds.\<close>

lemmas run_defs =
  chat_def chat_try_def get_agent_graph_def get_checkpointer_def stub_externals_def
  failing_externals_def initial_process_state_def initial_state_def config_def
  chat_stream_def event_generator_def event_generator_try_def Let_def
  sample_request_def anonymous_request_def empty_request_def

lemma str_uuid_zero: "str_uuid (uuid4 0) = ''00000000-0000-4000-8000-000000000000''"
  by code_simp

lemma str_nat_500: "str_nat 500 = ''500''"
  by code_simp




lemma get_agent_graph_None:
  "checkpointer_global s = None \<Longrightarrow>
   get_agent_graph ext s = (create_agent_graph ext None, s, [Create_agent_graph None])"
  by (simp add: get_agent_graph_def get_checkpointer_def)

lemma get_agent_graph_calls:
  "run_with (snd (snd (get_agent_graph ext s))) = []"
  by (simp add: get_agent_graph_def Let_def)

lemma run_with_append: "run_with (cs @ cs') = run_with cs @ run_with cs'"
  by (induction cs rule: run_with.induct) simp_all

lemma created_with_append: "created_with (cs @ cs') = created_with cs @ created_with cs'"
  by (induction cs rule: created_with.induct) simp_all

lemma append_tool_calls_eq:
  "append_tool_calls tcs acc =
     acc @ map (\<lambda>tc. \<lparr>tr_name = dict_get tc ''name'', tr_args = dict_get tc ''args''\<rparr>) tcs"
  by (induction tcs arbitrary: acc) simp_all

lemma collect_tool_calls_eq:
  "collect_tool_calls msgs acc = acc @ tool_records_spec msgs"
proof (induction msgs arbitrary: acc)
  case Nil
  show ?case by (simp add: tool_records_spec_def)
next
  case (Cons msg msgs)
  show ?case
  proof (cases "msg_tool_calls msg")
    case None
    then show ?thesis using Cons.IH [of acc] by (simp add: tool_records_spec_def)
  next
    case (Some tcs)
    then show ?thesis
      using Cons.IH [of acc] Cons.IH [of "append_tool_calls tcs acc"]
      by (simp add: tool_records_spec_def append_tool_calls_eq)
  qed
qed

text \<open>The three ways the \<^verbatim>\<open>try\<close> block of \<^verbatim>\<open>chat\<close> ends once the graph exists.\<close>

lemma chat_try_factory_raises:
  assumes "get_agent_graph ext s = (Inl e, s', cs)"
  shows "chat_try ext req s = (Inl e, s', cs)"
  using assms by (simp add: chat_try_def)

lemma chat_try_ainvoke_raises:
  assumes "get_agent_graph ext s = (Inr g, s', cs)"
    and "sid = or_str (session_id req) (str_uuid (uuid4 (urandom ext)))"
    and "ainvoke ext g (initial_state (message req) sid) (config sid) = Inl e"
  shows "chat_try ext req s =
           (Inl e, s', cs @ [Ainvoke (initial_state (message req) sid) (config sid)])"
  using assms by (simp add: chat_try_def Let_def)

lemma chat_try_no_messages:
  assumes "get_agent_graph ext s = (Inr g, s', cs)"
    and "sid = or_str (session_id req) (str_uuid (uuid4 (urandom ext)))"
    and "ainvoke ext g (initial_state (message req) sid) (config sid) = Inr result"
    and "res_messages result = None \<or> res_messages result = Some []"
  shows "chat_try ext req s =
           (Inl (HTTPException 500 ''No response from agent''), s',
            cs @ [Ainvoke (initial_state (message req) sid) (config sid)])"
  using assms by (auto simp add: chat_try_def Let_def)

lemma chat_try_messages:
  assumes "get_agent_graph ext s = (Inr g, s', cs)"
    and "sid = or_str (session_id req) (str_uuid (uuid4 (urandom ext)))"
    and "ainvoke ext g (initial_state (message req) sid) (config sid) = Inr result"
    and "res_messages result = Some msgs" and "msgs \<noteq> []"
  shows "chat_try ext req s =
           (Inr \<lparr>response = content (last msgs), resp_session_id = sid,
                 tool_calls = (if tool_records_spec msgs = [] then None
                               else Some (tool_records_spec msgs))\<rparr>,
            s', cs @ [Ainvoke (initial_state (message req) sid) (config sid)])"
  using assms by (simp add: chat_try_def Let_def collect_tool_calls_eq)

lemma chat_try_success_session:
  assumes "fst (chat_try ext req s) = Inr resp"
  shows "resp_session_id resp = or_str (session_id req) (str_uuid (uuid4 (urandom ext)))"
  using assms
  by (auto simp add: chat_try_def Let_def split: prod.splits sum.splits if_splits)

lemma chat_success_iff: "fst (chat ext req s) = Inr resp \<longleftrightarrow> fst (chat_try ext req s) = Inr resp"
  by (auto simp add: chat_def split: prod.splits sum.splits if_splits)

lemma chat_calls: "snd (chat ext req s) = snd (chat_try ext req s)"
  by (auto simp add: chat_def split: prod.splits sum.splits)

lemma chat_try_run_with:
  "run_with (snd (snd (chat_try ext req s))) = [] \<or>
   run_with (snd (snd (chat_try ext req s))) =
     [(initial_state (message req) (or_str (session_id req) (str_uuid (uuid4 (urandom ext)))),
       config (or_str (session_id req) (str_uuid (uuid4 (urandom ext)))))]"
  by (auto simp add: chat_try_def get_agent_graph_def Let_def run_with_append
      split: prod.splits sum.splits if_splits)

lemma forward_events_gen_of_done: "forward_events (gen_of evs Gen_done) = (evs, None)"
  by (induction evs) (simp_all add: gen_of_def)

lemma forward_events_gen_of_raise: "forward_events (gen_of evs (Gen_raise e)) = (evs, Some e)"
  by (induction evs) (simp_all add: gen_of_def)

lemma event_gen_is_gen_of:
  "\<exists>evs. g = gen_of evs Gen_done \<or> (\<exists>e. g = gen_of evs (Gen_raise e))"
proof (induction g)
  case Gen_done
  have "Gen_done = gen_of [] Gen_done" by (simp add: gen_of_def)
  then show ?case by blast
next
  case (Gen_raise e)
  have "Gen_raise e = gen_of [] (Gen_raise e)" by (simp add: gen_of_def)
  then show ?case by blast
next
  case (Gen_yield ev g)
  then obtain evs where "g = gen_of evs Gen_done \<or> (\<exists>e. g = gen_of evs (Gen_raise e))"
    by blast
  then have "Gen_yield ev g = gen_of (ev # evs) Gen_done
      \<or> (\<exists>e. Gen_yield ev g = gen_of (ev # evs) (Gen_raise e))"
    by (auto simp add: gen_of_def)
  then show ?case by blast
qed

lemma event_generator_try_run_with:
  "run_with (snd (snd (event_generator_try ext msg session s))) = [] \<or>
   run_with (snd (snd (event_generator_try ext msg session s))) =
     [(initial_state msg (or_str session (str_uuid (uuid4 (urandom ext)))),
       config (or_str session (str_uuid (uuid4 (urandom ext)))))]"
  by (auto simp add: event_generator_try_def get_agent_graph_def Let_def run_with_append
      split: prod.splits sum.splits)

text \<open>
  An exception that does not derive from \<^verbatim>\<open>Exception\<close> (a cancellation, say) is not
  caught: it leaves the generator after the events produced so far, with no error string.
\<close>

lemma chat_stream_base_exception:
  assumes "get_agent_graph ext s = (Inr g, s', cs)"
    and "sid = or_str session (str_uuid (uuid4 (urandom ext)))"
    and "stream_agent_response ext g (initial_state msg sid) (config sid)
           = gen_of evs (Gen_raise (BaseException m))"
  shows "fst (chat_stream ext msg session s) = (evs, Some (BaseException m))"
  using assms
  by (simp add: chat_stream_def event_generator_def event_generator_try_def Let_def
      forward_events_gen_of_raise)

lemma chat_stream_calls:
  "snd (chat_stream ext msg session s) = snd (event_generator_try ext msg session s)"
  by (auto simp add: chat_stream_def event_generator_def split: prod.splits option.splits)

lemma serve_checkpointer_global:
  "checkpointer_global s = None \<Longrightarrow>
   checkpointer_global (fst (serve ext r s)) = None \<and>
   created_with (snd (serve ext r s)) = [None]"
proof (cases r)
  case (Chat req)
  assume "checkpointer_global s = None"
  then show ?thesis
    using Chat
    by (auto simp add: chat_calls chat_try_def get_agent_graph_None Let_def created_with_append
        split: prod.splits sum.splits)
next
  case (Chat_stream msg session)
  assume "checkpointer_global s = None"
  then show ?thesis
    using Chat_stream
    by (auto simp add: chat_stream_calls event_generator_try_def get_agent_graph_None Let_def
        created_with_append split: prod.splits sum.splits)
qed

lemma serve_all_checkpointer_global:
  "checkpointer_global s = None \<Longrightarrow>
   checkpointer_global (fst (serve_all reqs s)) = None \<and>
   created_with (snd (serve_all reqs s)) = replicate (length reqs) None"
proof (induction reqs arbitrary: s)
  case Nil
  then show ?case by simp
next
  case (Cons p reqs)
  obtain ext r where p: "p = (ext, r)" by (cases p)
  obtain s' cs where sv: "serve ext r s = (s', cs)" by (cases "serve ext r s")
  have one: "checkpointer_global s' = None \<and> created_with cs = [None]"
    using serve_checkpointer_global [OF Cons.prems, of ext r] sv by simp
  obtain s'' cs' where rest: "serve_all reqs s' = (s'', cs')" by (cases "serve_all reqs s'")
  have "checkpointer_global s'' = None \<and> created_with cs' = replicate (length reqs) None"
    using Cons.IH [of s'] one rest by simp
  then show ?case
    using p sv rest one by (simp add: created_with_append)
qed

section \<open>Session resolution\<close>



section \<open>The batch handler's answers\<close>

text \<open>
  Claim C3. When the graph is built and its result holds no messages (the key is missing
  or the list is empty), \<^verbatim>\<open>chat\<close> ends with an \<^verbatim>\<open>HTTPException\<close> of status 500, and
  does not return a response.
\<close>

theorem empty_response:
  assumes "get_agent_graph ext s = (Inr g, s', cs)"
    and "sid = or_str (session_id req) (str_uuid (uuid4 (urandom ext)))"
    and "ainvoke ext g (initial_state (message req) sid) (config sid) = Inr result"
    and "res_messages result = None \<or> res_messages result = Some []"
  shows "(\<exists>detail. fst (chat ext req s) = Inl (HTTPException 500 detail))
         \<and> (\<forall>resp. fst (chat ext req s) \<noteq> Inr resp)"
  using chat_try_no_messages [OF assms] by (simp add: chat_def)

text \<open>A graph that answers with an empty list of messages.\<close>

theorem empty_response_witness:
  "get_agent_graph (stub_externals (Some []) Gen_done) initial_process_state
     = (Inr (), initial_process_state, [Create_agent_graph None])
   \<and> (\<exists>detail. fst (chat (stub_externals (Some []) Gen_done) sample_request
                      initial_process_state)
                = Inl (HTTPException 500 detail))"
proof -
  have h1: "get_agent_graph (stub_externals (Some []) Gen_done) initial_process_state
      = (Inr (), initial_process_state, [Create_agent_graph None])"
    by (simp add: run_defs)
  have h2: "''s1'' = or_str (session_id sample_request)
      (str_uuid (uuid4 (urandom (stub_externals (Some []) Gen_done))))"
    by (simp add: run_defs)
  have h3: "ainvoke (stub_externals (Some []) Gen_done) ()
      (initial_state (message sample_request) ''s1'') (config ''s1'')
      = Inr \<lparr>res_messages = Some []\<rparr>"
    by (simp add: run_defs)
  have h4: "res_messages \<lparr>res_messages = Some []\<rparr> = None
      \<or> res_messages \<lparr>res_messages = Some []\<rparr> = Some []"
    by simp
  show ?thesis
    using h1 empty_response [OF h1 h2 h3 h4] by simp
qed

text \<open>
  Claim C10. The \<^verbatim>\<open>HTTPException\<close> raised for an empty result is caught by the
  handler's own \<^verbatim>\<open>except Exception\<close> and raised again: the detail the caller gets is the
  rendering \<^verbatim>\<open>str(e)\<close> of the caught exception, \<^verbatim>\<open>"500: No response from agent"\<close>, and
  not the original detail.
\<close>

theorem empty_response_detail:
  assumes "get_agent_graph ext s = (Inr g, s', cs)"
    and "sid = or_str (session_id req) (str_uuid (uuid4 (urandom ext)))"
    and "ainvoke ext g (initial_state (message req) sid) (config sid) = Inr result"
    and "res_messages result = None \<or> res_messages result = Some []"
  shows "fst (chat ext req s) =
           Inl (HTTPException 500 (str_exception (HTTPException 500 ''No response from agent'')))
         \<and> str_exception (HTTPException 500 ''No response from agent'')
             = ''500: No response from agent''
         \<and> fst (chat ext req s) \<noteq> Inl (HTTPException 500 ''No response from agent'')"
  using chat_try_no_messages [OF assms] by (simp add: chat_def str_nat_500)

text \<open>A graph whose result has no \<^verbatim>\<open>"messages"\<close> key: the detail the caller gets.\<close>

theorem empty_response_detail_witness:
  "fst (chat (stub_externals None Gen_done) sample_request initial_process_state)
     = Inl (HTTPException 500 ''500: No response from agent'')"
proof -
  have h1: "get_agent_graph (stub_externals None Gen_done) initial_process_state
      = (Inr (), initial_process_state, [Create_agent_graph None])"
    by (simp add: run_defs)
  have h2: "''s1'' = or_str (session_id sample_request)
      (str_uuid (uuid4 (urandom (stub_externals None Gen_done))))"
    by (simp add: run_defs)
  have h3: "ainvoke (stub_externals None Gen_done) ()
      (initial_state (message sample_request) ''s1'') (config ''s1'')
      = Inr \<lparr>res_messages = None\<rparr>"
    by (simp add: run_defs)
  have h4: "res_messages \<lparr>res_messages = None\<rparr> = None
      \<or> res_messages \<lparr>res_messages = None\<rparr> = Some []"
    by simp
  show ?thesis
    using empty_response_detail [OF h1 h2 h3 h4] by simp
qed

text \<open>
  Claim C4. When the result holds at least one message, the response text is the content
  of the last message, and the tool calls of the response are the tool-invocation records
  of all the messages, flattened in message order (the field is absent when there is none).
\<close>

theorem tool_call_aggregation:
  assumes "get_agent_graph ext s = (Inr g, s', cs)"
    and "sid = or_str (session_id req) (str_uuid (uuid4 (urandom ext)))"
    and "ainvoke ext g (initial_state (message req) sid) (config sid) = Inr result"
    and "res_messages result = Some msgs" and "msgs \<noteq> []"
  shows "\<exists>resp. fst (chat ext req s) = Inr resp
           \<and> response resp = content (last msgs)
           \<and> (case tool_calls resp of None \<Rightarrow> [] | Some tcs \<Rightarrow> tcs) = tool_records_spec msgs"
  using chat_try_messages [OF assms] by (simp add: chat_def)

text \<open>The last message calls A and B, an earlier one calls C: the response lists C, A, B.\<close>

theorem tool_call_aggregation_witness:
  "\<exists>resp. fst (chat (stub_externals (Some sample_messages) Gen_done) sample_request
                 initial_process_state) = Inr resp
     \<and> response resp = ''done''
     \<and> tool_calls resp =
         Some [\<lparr>tr_name = PyStr ''C'', tr_args = PyDict []\<rparr>,
               \<lparr>tr_name = PyStr ''A'', tr_args = PyDict [(''x'', PyInt 1)]\<rparr>,
               \<lparr>tr_name = PyStr ''B'', tr_args = PyNone\<rparr>]"
proof -
  have h1: "get_agent_graph (stub_externals (Some sample_messages) Gen_done) initial_process_state
      = (Inr (), initial_process_state, [Create_agent_graph None])"
    by (simp add: run_defs)
  have h2: "''s1'' = or_str (session_id sample_request)
      (str_uuid (uuid4 (urandom (stub_externals (Some sample_messages) Gen_done))))"
    by (simp add: run_defs)
  have h3: "ainvoke (stub_externals (Some sample_messages) Gen_done) ()
      (initial_state (message sample_request) ''s1'') (config ''s1'')
      = Inr \<lparr>res_messages = Some sample_messages\<rparr>"
    by (simp add: run_defs)
  have h4: "res_messages \<lparr>res_messages = Some sample_messages\<rparr> = Some sample_messages"
    by simp
  have h5: "sample_messages \<noteq> []"
    by (simp add: sample_messages_def)
  have recs: "tool_records_spec sample_messages =
      [\<lparr>tr_name = PyStr ''C'', tr_args = PyDict []\<rparr>,
       \<lparr>tr_name = PyStr ''A'', tr_args = PyDict [(''x'', PyInt 1)]\<rparr>,
       \<lparr>tr_name = PyStr ''B'', tr_args = PyNone\<rparr>]"
    by (simp add: tool_records_spec_def sample_messages_def dict_get_def)
  have last: "content (last sample_messages) = ''done''"
    by (simp add: sample_messages_def)
  show ?thesis
    using tool_call_aggregation [OF h1 h2 h3 h4 h5] recs last
    by (auto split: option.splits)
qed

text \<open>
  Claim C5. When no tool-invocation record is found in any returned message, the response
  has no \<^verbatim>\<open>tool_calls\<close> (the field is \<^verbatim>\<open>None\<close>); and no response ever carries an empty
  list there.
\<close>

theorem tool_call_omission:
  assumes "get_agent_graph ext s = (Inr g, s', cs)"
    and "sid = or_str (session_id req) (str_uuid (uuid4 (urandom ext)))"
    and "ainvoke ext g (initial_state (message req) sid) (config sid) = Inr result"
    and "res_messages result = Some msgs" and "msgs \<noteq> []"
  shows "\<exists>resp. fst (chat ext req s) = Inr resp
           \<and> (tool_records_spec msgs = [] \<longrightarrow> tool_calls resp = None)
           \<and> tool_calls resp \<noteq> Some []"
  using chat_try_messages [OF assms] by (simp add: chat_def)

text \<open>Two messages, one with an empty \<^verbatim>\<open>tool_calls\<close>, one without the attribute.\<close>

theorem tool_call_omission_witness:
  "\<exists>resp. fst (chat (stub_externals (Some plain_messages) Gen_done) sample_request
                 initial_process_state) = Inr resp
     \<and> tool_calls resp = None"
proof -
  have h1: "get_agent_graph (stub_externals (Some plain_messages) Gen_done) initial_process_state
      = (Inr (), initial_process_state, [Create_agent_graph None])"
    by (simp add: run_defs)
  have h2: "''s1'' = or_str (session_id sample_request)
      (str_uuid (uuid4 (urandom (stub_externals (Some plain_messages) Gen_done))))"
    by (simp add: run_defs)
  have h3: "ainvoke (stub_externals (Some plain_messages) Gen_done) ()
      (initial_state (message sample_request) ''s1'') (config ''s1'')
      = Inr \<lparr>res_messages = Some plain_messages\<rparr>"
    by (simp add: run_defs)
  have h4: "res_messages \<lparr>res_messages = Some plain_messages\<rparr> = Some plain_messages"
    by simp
  have h5: "plain_messages \<noteq> []"
    by (simp add: plain_messages_def)
  have none: "tool_records_spec plain_messages = []"
    by (simp add: tool_records_spec_def plain_messages_def)
  show ?thesis
    using tool_call_omission [OF h1 h2 h3 h4 h5] none by auto
qed

text \<open>
  Claim C9. \<^verbatim>\<open>chat\<close> does not check that the message is not empty: with an empty message
  and a graph that could be built, the graph is run once, on the initial state holding the
  empty human message, and whatever the outcome the handler never raises an
  \<^verbatim>\<open>HTTPException\<close> of status 400.
\<close>

theorem empty_message_accepted:
  assumes "message req = []"
    and "get_agent_graph ext s = (Inr g, s', cs)"
    and "sid = or_str (session_id req) (str_uuid (uuid4 (urandom ext)))"
  shows "run_with (snd (snd (chat ext req s)))
           = [(\<lparr>st_messages = [HumanMessage []], st_session_id = sid\<rparr>, \<lparr>thread_id = sid\<rparr>)]
         \<and> (\<forall>detail. fst (chat ext req s) \<noteq> Inl (HTTPException 400 detail))"
proof -
  have cs: "run_with cs = []"
    using get_agent_graph_calls [of ext s] assms(2) by simp
  have calls: "run_with (snd (snd (chat_try ext req s)))
      = [(initial_state [] sid, config sid)]"
    using assms cs
    by (auto simp add: chat_try_def Let_def run_with_append split: sum.splits)
  have status: "\<forall>detail. fst (chat ext req s) \<noteq> Inl (HTTPException 400 detail)"
    using assms(2)
    by (auto simp add: chat_def chat_try_def Let_def split: prod.splits sum.splits if_splits
        elim: is_Exception.elims)
  show ?thesis
    using calls status by (simp add: chat_calls initial_state_def config_def)
qed

text \<open>An empty message goes to the graph and the answer comes back.\<close>

theorem empty_message_accepted_witness:
  "message empty_request = []
   \<and> run_with (snd (snd (chat (stub_externals (Some plain_messages) Gen_done) empty_request
                           initial_process_state)))
       = [(\<lparr>st_messages = [HumanMessage []], st_session_id = ''s1''\<rparr>, \<lparr>thread_id = ''s1''\<rparr>)]
   \<and> fst (chat (stub_externals (Some plain_messages) Gen_done) empty_request
            initial_process_state)
       = Inr \<lparr>response = ''ok'', resp_session_id = ''s1'', tool_calls = None\<rparr>"
proof -
  have h0: "message empty_request = []"
    by (simp add: empty_request_def)
  have h1: "get_agent_graph (stub_externals (Some plain_messages) Gen_done) initial_process_state
      = (Inr (), initial_process_state, [Create_agent_graph None])"
    by (simp add: run_defs)
  have h2: "''s1'' = or_str (session_id empty_request)
      (str_uuid (uuid4 (urandom (stub_externals (Some plain_messages) Gen_done))))"
    by (simp add: run_defs)
  have out: "fst (chat (stub_externals (Some plain_messages) Gen_done) empty_request
      initial_process_state)
      = Inr \<lparr>response = ''ok'', resp_session_id = ''s1'', tool_calls = None\<rparr>"
    by (simp add: run_defs plain_messages_def)
  show ?thesis
    using h0 out empty_message_accepted [OF h0 h1 h2] by simp
qed

section \<open>The streaming handler's frames\<close>



text \<open>
  Claim C6. When the graph is built and the generator yields the events \<open>evs\<close> and is
  exhausted without raising, the handler yields exactly these events, each once and in the
  same order, and ends without an exception.
\<close>

theorem streaming_order:
  assumes "get_agent_graph ext s = (Inr g, s', cs)"
    and "sid = or_str session (str_uuid (uuid4 (urandom ext)))"
    and "stream_agent_response ext g (initial_state msg sid) (config sid) = gen_of evs Gen_done"
  shows "fst (chat_stream ext msg session s) = (evs, None)"
  using assms
  by (simp add: chat_stream_def event_generator_def event_generator_try_def Let_def
      forward_events_gen_of_done)

text \<open>Three events and no failure.\<close>

theorem streaming_order_witness:
  "fst (chat_stream
         (stub_externals None (Gen_yield ''e1'' (Gen_yield ''e2'' (Gen_yield ''e3'' Gen_done))))
         ''hi'' (Some ''s1'') initial_process_state)
     = ([''e1'', ''e2'', ''e3''], None)"
proof -
  let ?ext =
    "stub_externals None (Gen_yield ''e1'' (Gen_yield ''e2'' (Gen_yield ''e3'' Gen_done)))"
  have h1: "get_agent_graph ?ext initial_process_state
      = (Inr (), initial_process_state, [Create_agent_graph None])"
    by (simp add: run_defs)
  have h2: "''s1'' = or_str (Some ''s1'') (str_uuid (uuid4 (urandom ?ext)))"
    by simp
  have h3: "stream_agent_response ?ext () (initial_state ''hi'' ''s1'') (config ''s1'')
      = gen_of [''e1'', ''e2'', ''e3''] Gen_done"
    by (simp add: stub_externals_def gen_of_def)
  show ?thesis
    using streaming_order [OF h1 h2 h3] by simp
qed

section \<open>One session identifier per request\<close>

text \<open>
  Claim C7. A request runs the graph at most once; in every run the \<^verbatim>\<open>session_id\<close> of
  the initial state is the \<^verbatim>\<open>thread_id\<close> of the configuration, and a batch response
  carries the same identifier.
\<close>

theorem session_coherence:
  "length (run_with (snd (snd (chat ext req s)))) \<le> 1
   \<and> length (run_with (snd (snd (chat_stream ext msg session s)))) \<le> 1
   \<and> (\<forall>p \<in> set (run_with (snd (snd (chat ext req s)))).
        st_session_id (fst p) = thread_id (snd p)
        \<and> (\<forall>resp. fst (chat ext req s) = Inr resp \<longrightarrow> resp_session_id resp = thread_id (snd p)))
   \<and> (\<forall>p \<in> set (run_with (snd (snd (chat_stream ext msg session s)))).
        st_session_id (fst p) = thread_id (snd p))"
proof -
  have batch: "run_with (snd (snd (chat ext req s))) = [] \<or>
      run_with (snd (snd (chat ext req s))) =
        [(initial_state (message req) (or_str (session_id req) (str_uuid (uuid4 (urandom ext)))),
          config (or_str (session_id req) (str_uuid (uuid4 (urandom ext)))))]"
    using chat_try_run_with [of ext req s] by (simp add: chat_calls)
  have stream: "run_with (snd (snd (chat_stream ext msg session s))) = [] \<or>
      run_with (snd (snd (chat_stream ext msg session s))) =
        [(initial_state msg (or_str session (str_uuid (uuid4 (urandom ext)))),
          config (or_str session (str_uuid (uuid4 (urandom ext)))))]"
    using event_generator_try_run_with [of ext msg session s] by (simp add: chat_stream_calls)
  have resp: "\<forall>resp. fst (chat ext req s) = Inr resp \<longrightarrow>
      resp_session_id resp = or_str (session_id req) (str_uuid (uuid4 (urandom ext)))"
    using chat_try_success_session [of ext req s] by (simp add: chat_success_iff)
  show ?thesis
    using batch stream resp by (auto simp add: initial_state_def config_def)
qed

text \<open>A request without identifier, in both handlers: one run, one generated identifier.\<close>

theorem session_coherence_witness:
  "run_with (snd (snd (chat (stub_externals (Some plain_messages) Gen_done) anonymous_request
                         initial_process_state)))
     = [(\<lparr>st_messages = [HumanMessage ''hi''], st_session_id = str_uuid (uuid4 0)\<rparr>,
         \<lparr>thread_id = str_uuid (uuid4 0)\<rparr>)]
   \<and> resp_session_id (projr (fst (chat (stub_externals (Some plain_messages) Gen_done)
                                     anonymous_request initial_process_state)))
       = str_uuid (uuid4 0)
   \<and> run_with (snd (snd (chat_stream (stub_externals None (Gen_yield ''e1'' Gen_done)) ''hi''
                           None initial_process_state)))
       = [(\<lparr>st_messages = [HumanMessage ''hi''], st_session_id = str_uuid (uuid4 0)\<rparr>,
           \<lparr>thread_id = str_uuid (uuid4 0)\<rparr>)]"
  using session_coherence [where ext = "stub_externals (Some plain_messages) Gen_done"
      and req = anonymous_request and s = initial_process_state
      and msg = "''hi''" and session = None]
    session_coherence [where ext = "stub_externals None (Gen_yield ''e1'' Gen_done)"
      and req = anonymous_request and s = initial_process_state
      and msg = "''hi''" and session = None]
  by (simp add: run_defs plain_messages_def)

section \<open>No checkpoint store\<close>

text \<open>
  Claim C8. \<^verbatim>\<open>get_checkpointer\<close> returns \<^verbatim>\<open>None\<close>, and after start-up, whatever the
  database URL and whatever requests are served, with whatever collaborators, the module
  global stays \<^verbatim>\<open>None\<close> and every request builds its graph with the checkpointer
  \<^verbatim>\<open>None\<close>: the saver that \<^verbatim>\<open>lifespan\<close> stores in \<^verbatim>\<open>app.state.checkpointer\<close> is never
  handed to the graph.
\<close>

theorem no_op_persistence:
  "get_checkpointer = None
   \<and> checkpointer_global (fst (serve_all reqs (lifespan database_url initial_process_state))) = None
   \<and> created_with (snd (serve_all reqs (lifespan database_url initial_process_state)))
       = replicate (length reqs) None"
proof -
  have "checkpointer_global (lifespan database_url initial_process_state) = None"
    by (simp add: lifespan_def initial_process_state_def Let_def)
  then show ?thesis
    using serve_all_checkpointer_global [of "lifespan database_url initial_process_state" reqs]
    by (simp add: get_checkpointer_def)
qed

text \<open>Start-up on an \<^verbatim>\<open>asyncpg\<close> URL, then one batch and one streaming request.\<close>

theorem no_op_persistence_witness:
  "created_with (snd (serve_all
       [(stub_externals (Some plain_messages) Gen_done, Chat sample_request),
        (stub_externals None (Gen_yield ''e1'' Gen_done), Chat_stream ''hi'' (Some ''s1''))]
       (lifespan ''postgresql+asyncpg://db'' initial_process_state)))
     = [None, None]
   \<and> app_state_checkpointer (lifespan ''postgresql+asyncpg://db'' initial_process_state)
       = Some (AsyncPostgresSaver ''postgresql://db'')"
proof -
  have url: "str_replace ''postgresql+asyncpg://db'' ''+asyncpg'' [] = ''postgresql://db''"
    by code_simp
  show ?thesis
    using no_op_persistence [of
        "[(stub_externals (Some plain_messages) Gen_done, Chat sample_request),
          (stub_externals None (Gen_yield ''e1'' Gen_done), Chat_stream ''hi'' (Some ''s1''))]"
        "''postgresql+asyncpg://db''"] url
    by (simp add: lifespan_def Let_def initial_process_state_def)
qed

end
